theory Spec2Isabelle
  imports Complex_Main "HOL-Library.AList"
begin

text \<open>
  A model of \<^verbatim>\<open>flight_tracker.py\<close>: its pure helpers, \<open>FlightFetcher\<close> with its callsign
  cache, the values that \<open>FlightDisplay.draw\<close> derives for the panel, and the body of the
  loop of \<open>FlightTrackerApp.run\<close>, as functions on an explicit state. An exception is a
  value: a function that can raise returns \<open>error + 'a\<close>, and a \<^verbatim>\<open>try\<close> block is a case
  distinction on that result.
\<close>

section \<open>Python values\<close>

text \<open>
  The program handles whatever the JSON decoder of the HTTP library returns: \<^verbatim>\<open>None\<close>,
  booleans, unbounded integers, floats, strings, lists and dictionaries. A dictionary is an
  association list read with \<^const>\<open>map_of\<close> and written with \<open>AList.update\<close>; it stands for
  the decoded dictionary, in which a key occurs once.

  A float is modelled by the real number it denotes and float arithmetic is exact: rounding,
  overflow and the non-finite floats are outside the model. A string is a list of
  characters.
\<close>

datatype json =
    JNull
  | JBool bool
  | JInt int
  | JFloat real
  | JStr string
  | JArr "json list"
  | JObj "(string \<times> json) list"

text \<open>The exceptions the modelled code can raise. \<open>JSONDecodeError\<close> is a \<open>ValueError\<close>
  in Python; it is kept apart here to show where it comes from.\<close>

datatype error =
    ValueError
  | TypeError
  | AttributeError
  | IndexError
  | ConnectionError
  | HTTPError
  | JSONDecodeError
  | ImageError

text \<open>Truth value testing, as \<^verbatim>\<open>if x\<close>, \<^verbatim>\<open>x or y\<close> and \<^verbatim>\<open>x and y\<close> do it.\<close>

fun truthy :: "json \<Rightarrow> bool" where
  "truthy JNull = False"
| "truthy (JBool b) = b"
| "truthy (JInt n) = (n \<noteq> 0)"
| "truthy (JFloat r) = (r \<noteq> 0)"
| "truthy (JStr s) = (s \<noteq> [])"
| "truthy (JArr xs) = (xs \<noteq> [])"
| "truthy (JObj kvs) = (kvs \<noteq> [])"

definition py_or :: "json \<Rightarrow> json \<Rightarrow> json" where
  "py_or a b = (if truthy a then a else b)"

definition py_and :: "json \<Rightarrow> json \<Rightarrow> json" where
  "py_and a b = (if truthy a then b else a)"

text \<open>\<^verbatim>\<open>d.get(k, default)\<close>: only a dictionary has the method.\<close>

definition dict_get :: "json \<Rightarrow> string \<Rightarrow> json \<Rightarrow> error + json" where
  "dict_get d k dflt =
     (case d of
        JObj kvs \<Rightarrow> Inr (case map_of kvs k of Some v \<Rightarrow> v | None \<Rightarrow> dflt)
      | _ \<Rightarrow> Inl AttributeError)"

text \<open>\<^verbatim>\<open>s.strip()\<close>: only a string has the method. Whitespace is the ASCII part of what
  Python strips: tab, line feed, vertical tab, form feed, carriage return, the four
  separators \<open>0x1c\<close> to \<open>0x1f\<close>, and the space.\<close>

definition py_isspace :: "char \<Rightarrow> bool" where
  "py_isspace c =
     (let n = of_char c :: nat in (9 \<le> n \<and> n \<le> 13) \<or> (28 \<le> n \<and> n \<le> 32))"

definition strip :: "string \<Rightarrow> string" where
  "strip s = rev (dropWhile py_isspace (rev (dropWhile py_isspace s)))"

definition py_strip :: "json \<Rightarrow> error + string" where
  "py_strip v = (case v of JStr s \<Rightarrow> Inr (strip s) | _ \<Rightarrow> Inl AttributeError)"

subsection \<open>The built-in \<open>int\<close>\<close>

text \<open>
  \<^verbatim>\<open>int(s)\<close> on a string: optional whitespace around an optional sign and a non-empty run of
  decimal digits, where single underscores may stand between digits. Everything else is a
  \<open>ValueError\<close>. (Python also accepts the decimal digits of other scripts; strings here are
  ASCII. The limit that recent versions of CPython put on the number of digits is not
  modelled.)
\<close>

definition is_digit :: "char \<Rightarrow> bool" where
  "is_digit c = (let n = of_char c :: nat in 48 \<le> n \<and> n \<le> 57)"

definition digit_val :: "char \<Rightarrow> nat" where
  "digit_val c = of_char c - 48"

fun int_digits :: "nat \<Rightarrow> string \<Rightarrow> nat option" where
  "int_digits acc [] = None"
| "int_digits acc [c] = (if is_digit c then Some (10 * acc + digit_val c) else None)"
| "int_digits acc (c # d # ds) =
     (if is_digit c
      then (if d = CHR ''_'' then int_digits (10 * acc + digit_val c) ds
            else int_digits (10 * acc + digit_val c) (d # ds))
      else None)"

definition int_of_str :: "string \<Rightarrow> int option" where
  "int_of_str s =
     (case strip s of
        [] \<Rightarrow> None
      | c # cs \<Rightarrow>
          if c = CHR ''-'' then map_option (\<lambda>n. - int n) (int_digits 0 cs)
          else if c = CHR ''+'' then map_option int (int_digits 0 cs)
          else map_option int (int_digits 0 (c # cs)))"

text \<open>\<^verbatim>\<open>int(x)\<close> on a float drops the fractional part (rounds toward zero).\<close>

definition py_trunc :: "real \<Rightarrow> int" where
  "py_trunc r = (if 0 \<le> r then \<lfloor>r\<rfloor> else \<lceil>r\<rceil>)"

fun py_int :: "json \<Rightarrow> error + int" where
  "py_int JNull = Inl TypeError"
| "py_int (JBool b) = Inr (if b then 1 else 0)"
| "py_int (JInt n) = Inr n"
| "py_int (JFloat r) = Inr (py_trunc r)"
| "py_int (JStr s) = (case int_of_str s of Some n \<Rightarrow> Inr n | None \<Rightarrow> Inl ValueError)"
| "py_int (JArr xs) = Inl TypeError"
| "py_int (JObj kvs) = Inl TypeError"

section \<open>Configuration\<close>

record location =
  name :: string
  lat :: real
  lon :: real
  radius :: real

definition HOME_COORDS :: "real \<times> real" where
  "HOME_COORDS = (31.0, -97.0)"

definition LOCATIONS :: "location list" where
  "LOCATIONS =
     [\<lparr>name = ''Austin'', lat = 30.3, lon = -97.7, radius = 50\<rparr>,
      \<lparr>name = ''Dallas/Fort Worth'', lat = 32.9, lon = -97.0, radius = 50\<rparr>,
      \<lparr>name = ''Houston'', lat = 29.9, lon = -95.3, radius = 50\<rparr>]"

definition AIRLINE_LOGO_DOMAINS :: "(string \<times> string) list" where
  "AIRLINE_LOGO_DOMAINS =
     [(''American Airlines'', ''aa.com''),
      (''Delta Air Lines'', ''delta.com''),
      (''United Airlines'', ''united.com''),
      (''Southwest Airlines'', ''southwest.com''),
      (''Alaska Airlines'', ''alaskaair.com'')]"

definition MAX_AIRCRAFT :: nat where
  "MAX_AIRCRAFT = 20"

section \<open>Pure helpers\<close>

text \<open>\<^verbatim>\<open>math.radians\<close>, \<^verbatim>\<open>math.sqrt\<close> (which raises on a negative argument) and
  \<^verbatim>\<open>math.atan2\<close>.\<close>

definition radians :: "real \<Rightarrow> real" where
  "radians d = d * pi / 180"

definition py_sqrt :: "real \<Rightarrow> error + real" where
  "py_sqrt x = (if x < 0 then Inl ValueError else Inr (sqrt x))"

definition atan2 :: "real \<Rightarrow> real \<Rightarrow> real" where
  "atan2 y x =
     (if 0 < x then arctan (y / x)
      else if x < 0 then (if 0 \<le> y then arctan (y / x) + pi else arctan (y / x) - pi)
      else if 0 < y then pi / 2
      else if y < 0 then - pi / 2
      else 0)"

definition haversine_a :: "real \<Rightarrow> real \<Rightarrow> real \<Rightarrow> real \<Rightarrow> real" where
  "haversine_a lat1 lon1 lat2 lon2 =
     (let phi1 = radians lat1; phi2 = radians lat2;
          dphi = radians (lat2 - lat1);
          dlambda = radians (lon2 - lon1)
      in (sin (dphi / 2))\<^sup>2 + cos phi1 * cos phi2 * (sin (dlambda / 2))\<^sup>2)"

definition haversine :: "real \<Rightarrow> real \<Rightarrow> real \<Rightarrow> real \<Rightarrow> error + real" where
  "haversine lat1 lon1 lat2 lon2 =
     (let R = 6371;
          a = haversine_a lat1 lon1 lat2 lon2
      in case py_sqrt a of
           Inl e \<Rightarrow> Inl e
         | Inr y \<Rightarrow>
             (case py_sqrt (1 - a) of
                Inl e \<Rightarrow> Inl e
              | Inr x \<Rightarrow> Inr (R * 2 * atan2 y x)))"

text \<open>\<open>parse_altitude\<close>: \<^verbatim>\<open>int(alt)\<close>, with \<open>ValueError\<close> and \<open>TypeError\<close> caught.\<close>

definition parse_altitude :: "json \<Rightarrow> error + int" where
  "parse_altitude alt =
     (case py_int alt of
        Inr n \<Rightarrow> Inr n
      | Inl e \<Rightarrow> if e = ValueError \<or> e = TypeError then Inr 0 else Inl e)"

text \<open>The colour helpers. Their argument is a Python number (an \<open>int\<close> or a \<open>float\<close>),
  here a real; \<^verbatim>\<open>/\<close> is true division.\<close>

definition alt_color :: "real \<Rightarrow> int \<times> int \<times> int" where
  "alt_color alt = (py_trunc (255 * max 0 (min 1 (1 - alt / 40000))), 0, 0)"

definition dist_color :: "real \<Rightarrow> int \<times> int \<times> int" where
  "dist_color d = (py_trunc (255 * max 0 (min 1 (1 - d / 100))), 0, 0)"

definition speed_color :: "real \<Rightarrow> int \<times> int \<times> int" where
  "speed_color speed = (0, py_trunc (200 * max 0 (min 1 (speed / 600))), 0)"

section \<open>The outside world\<close>

text \<open>
  The three HTTP services are one transport: the answer to a request may depend on the
  request and on how many requests were made before it, so the same request can be answered
  differently later. \<open>Failed\<close> is a call that raised (connection error, timeout);
  otherwise the answer has a status code and a body, which is a JSON document, an image, or
  bytes that are neither.
\<close>

datatype request =
    PointQuery real real real
  | CallsignQuery string
  | LogoQuery string

datatype content = Garbage | Json json | Picture

datatype http = Failed | Response nat content

type_synonym transport = "nat \<Rightarrow> request \<Rightarrow> http"

type_synonym route = "json \<times> json \<times> json"

text \<open>What one call of \<open>draw\<close> hands to the display: the values behind the text lines and
  their fill colours. Laying out the text, compositing the logo and refreshing the panel
  are the work of external libraries and are not modelled.\<close>

record frame =
  f_area :: string
  f_flight :: string
  f_airline :: json
  f_alt :: int
  f_alt_fill :: "int \<times> int \<times> int"
  f_speed :: int
  f_speed_mph :: real
  f_speed_fill :: "int \<times> int \<times> int"
  f_dist_km :: real
  f_dist_mi :: real
  f_dist_fill :: "int \<times> int \<times> int"
  f_origin :: json
  f_dest :: json
  f_logo :: bool

text \<open>The state of the process: the fields of \<open>FlightTrackerApp\<close> and of its
  \<open>FlightFetcher\<close>, the requests sent so far, and the frames shown so far.\<close>

record app =
  idx :: nat
  last_switch :: real
  callsign_cache :: "string \<Rightarrow> route option"
  sent :: "request list"
  shown :: "frame list"

fun and_then :: "error + 'a \<Rightarrow> ('a \<Rightarrow> error + 'b) \<Rightarrow> error + 'b" where
  "and_then (Inl e) f = Inl e"
| "and_then (Inr x) f = f x"

text \<open>\<^verbatim>\<open>requests.get\<close>, \<^verbatim>\<open>raise_for_status\<close> (which raises on the status codes 400 to 599)
  and \<^verbatim>\<open>resp.json()\<close>.\<close>

definition checked :: "http \<Rightarrow> error + content" where
  "checked r =
     (case r of
        Failed \<Rightarrow> Inl ConnectionError
      | Response code body \<Rightarrow> if 400 \<le> code \<and> code < 600 then Inl HTTPError else Inr body)"

definition response_json :: "http \<Rightarrow> error + json" where
  "response_json r =
     and_then (checked r) (\<lambda>body. case body of Json j \<Rightarrow> Inr j | _ \<Rightarrow> Inl JSONDecodeError)"

text \<open>The slice \<^verbatim>\<open>v[:n]\<close>: lists and strings can be sliced, nothing else in a JSON document
  can. (For a dictionary the exception is a \<open>TypeError\<close> or a \<open>KeyError\<close>, by the version of
  Python; the only slice of the program stands in a \<^verbatim>\<open>try\<close> block that catches both.)\<close>

definition py_slice :: "nat \<Rightarrow> json \<Rightarrow> error + json" where
  "py_slice n v =
     (case v of
        JArr xs \<Rightarrow> Inr (JArr (take n xs))
      | JStr s \<Rightarrow> Inr (JStr (take n s))
      | _ \<Rightarrow> Inl TypeError)"

text \<open>\<^verbatim>\<open>for x in v\<close>: a list gives its elements, a string its characters (each a string of
  length one), a dictionary its keys.\<close>

definition py_iter :: "json \<Rightarrow> error + json list" where
  "py_iter v =
     (case v of
        JArr xs \<Rightarrow> Inr xs
      | JStr s \<Rightarrow> Inr (map (\<lambda>c. JStr [c]) s)
      | JObj kvs \<Rightarrow> Inr (map (\<lambda>kv. JStr (fst kv)) kvs)
      | _ \<Rightarrow> Inl TypeError)"

text \<open>A number as \<^verbatim>\<open>math.radians\<close> and float arithmetic take it: anything else is a
  \<open>TypeError\<close>.\<close>

definition py_float :: "json \<Rightarrow> error + real" where
  "py_float v =
     (case v of
        JBool b \<Rightarrow> Inr (if b then 1 else 0)
      | JInt n \<Rightarrow> Inr (of_int n)
      | JFloat r \<Rightarrow> Inr r
      | _ \<Rightarrow> Inl TypeError)"

section \<open>FlightFetcher\<close>

definition aircraft_of :: "http \<Rightarrow> error + json" where
  "aircraft_of r =
     and_then (response_json r) (\<lambda>j.
     and_then (dict_get j ''ac'' (JArr [])) (\<lambda>v.
     py_slice MAX_AIRCRAFT v))"

definition fetch_aircraft :: "transport \<Rightarrow> real \<Rightarrow> real \<Rightarrow> real \<Rightarrow> app \<Rightarrow> json \<times> app" where
  "fetch_aircraft net la lo rad s =
     (let rq = PointQuery la lo rad;
          r = net (length (sent s)) rq;
          s' = s\<lparr>sent := sent s @ [rq]\<rparr>
      in case aircraft_of r of
           Inr v \<Rightarrow> (v, s')
         | Inl e \<Rightarrow> (JArr [], s'))"

definition NA :: json where
  "NA = JStr ''N/A''"

definition route_of :: "http \<Rightarrow> error + route" where
  "route_of r =
     and_then (response_json r) (\<lambda>j.
     and_then (dict_get j ''response'' (JObj [])) (\<lambda>rs.
     and_then (dict_get rs ''flightroute'' (JObj [])) (\<lambda>fr.
     and_then (and_then (dict_get fr ''airline'' (JObj [])) (\<lambda>d. dict_get d ''name'' NA)) (\<lambda>airline.
     and_then (and_then (dict_get fr ''origin'' (JObj [])) (\<lambda>d. dict_get d ''name'' NA)) (\<lambda>origin.
     and_then (and_then (dict_get fr ''destination'' (JObj [])) (\<lambda>d. dict_get d ''name'' NA)) (\<lambda>dest.
     Inr (airline, origin, dest)))))))"

definition fetch_route_info :: "transport \<Rightarrow> string \<Rightarrow> app \<Rightarrow> route \<times> app" where
  "fetch_route_info net callsign s =
     (case callsign_cache s callsign of
        Some v \<Rightarrow> (v, s)
      | None \<Rightarrow>
          if callsign = [] then
            ((NA, NA, NA), s\<lparr>callsign_cache := (callsign_cache s)(callsign \<mapsto> (NA, NA, NA))\<rparr>)
          else
            (let rq = CallsignQuery callsign;
                 r = net (length (sent s)) rq;
                 v = (case route_of r of Inr v \<Rightarrow> v | Inl e \<Rightarrow> (NA, NA, NA))
             in (v, s\<lparr>sent := sent s @ [rq],
                      callsign_cache := (callsign_cache s)(callsign \<mapsto> v)\<rparr>)))"

section \<open>FlightDisplay\<close>

text \<open>\<^verbatim>\<open>AIRLINE_LOGO_DOMAINS.get(airline)\<close>: a list or a dictionary cannot be hashed; any
  other value that is not a key of the table gives \<open>None\<close>.\<close>

definition logo_domain :: "json \<Rightarrow> error + string option" where
  "logo_domain airline =
     (case airline of
        JStr a \<Rightarrow> Inr (map_of AIRLINE_LOGO_DOMAINS a)
      | JArr xs \<Rightarrow> Inl TypeError
      | JObj kvs \<Rightarrow> Inl TypeError
      | _ \<Rightarrow> Inr None)"

definition image_of :: "http \<Rightarrow> error + unit" where
  "image_of r =
     and_then (checked r) (\<lambda>body. case body of Picture \<Rightarrow> Inr () | _ \<Rightarrow> Inl ImageError)"

definition fetch_logo :: "transport \<Rightarrow> json \<Rightarrow> app \<Rightarrow> error + (bool \<times> app)" where
  "fetch_logo net airline s =
     and_then (logo_domain airline) (\<lambda>domain.
       case domain of
         None \<Rightarrow> Inr (False, s)
       | Some d \<Rightarrow>
           if d = [] then Inr (False, s)
           else
             (let rq = LogoQuery d;
                  r = net (length (sent s)) rq;
                  s' = s\<lparr>sent := sent s @ [rq]\<rparr>
              in case image_of r of
                   Inr u \<Rightarrow> Inr (True, s')
                 | Inl e \<Rightarrow> Inr (False, s')))"

text \<open>Line 171 of the source: \<^verbatim>\<open>int(ac.get("gs") or 0)\<close>.\<close>

definition ground_speed :: "json \<Rightarrow> error + int" where
  "ground_speed ac = and_then (dict_get ac ''gs'' JNull) (\<lambda>gs. py_int (py_or gs (JInt 0)))"

text \<open>Line 174 of the source: the distance, when \<^verbatim>\<open>lat and lon\<close> is true.\<close>

definition distance_km :: "real \<times> real \<Rightarrow> json \<Rightarrow> json \<Rightarrow> error + real" where
  "distance_km home la lo =
     (if truthy (py_and la lo) then
        and_then (py_float la) (\<lambda>lat2.
        and_then (py_float lo) (\<lambda>lon2.
        haversine (fst home) (snd home) lat2 lon2))
      else Inr 0)"

definition draw :: "transport \<Rightarrow> json list \<Rightarrow> string \<Rightarrow> real \<times> real \<Rightarrow> app \<Rightarrow> error + app" where
  "draw net aircraft loc_name home_coords s =
     (case aircraft of
        [] \<Rightarrow> Inl IndexError
      | ac # others \<Rightarrow>
          and_then (and_then (dict_get ac ''flight'' NA) py_strip) (\<lambda>callsign.
          and_then (and_then (dict_get ac ''alt_baro'' JNull) parse_altitude) (\<lambda>alt.
          and_then (ground_speed ac) (\<lambda>speed.
          and_then (dict_get ac ''lat'' JNull) (\<lambda>la.
          and_then (dict_get ac ''lon'' JNull) (\<lambda>lo.
          and_then (dict_get ac ''airline_name'' NA) (\<lambda>airline.
          and_then (dict_get ac ''origin_name'' NA) (\<lambda>origin.
          and_then (dict_get ac ''destination_name'' NA) (\<lambda>dest.
          and_then (distance_km home_coords la lo) (\<lambda>dist_km.
          let dist_mi = dist_km * 0.621371;
              speed_mph = of_int speed * 1.15078
          in and_then (fetch_logo net airline s) (\<lambda>(logo, s').
             Inr (s'\<lparr>shown := shown s' @
                    [\<lparr>f_area = loc_name, f_flight = callsign, f_airline = airline,
                      f_alt = alt, f_alt_fill = alt_color (of_int alt),
                      f_speed = speed, f_speed_mph = speed_mph,
                      f_speed_fill = speed_color (of_int speed),
                      f_dist_km = dist_km, f_dist_mi = dist_mi,
                      f_dist_fill = dist_color dist_km,
                      f_origin = origin, f_dest = dest, f_logo = logo\<rparr>]\<rparr>))))))))))))"

section \<open>FlightTrackerApp\<close>

definition switch_interval :: real where
  "switch_interval = 300"

definition init :: "real \<Rightarrow> app" where
  "init now = \<lparr>idx = 0, last_switch = now, callsign_cache = Map.empty, sent = [], shown = []\<rparr>"

text \<open>Lines 221 to 224: the timed rotation.\<close>

definition timed_switch :: "real \<Rightarrow> app \<Rightarrow> app" where
  "timed_switch now s =
     (if now - last_switch s \<ge> switch_interval
      then s\<lparr>idx := (idx s + 1) mod length LOCATIONS, last_switch := now\<rparr>
      else s)"

text \<open>Lines 234 to 238: \<^verbatim>\<open>ac.update\<close> with the three route fields.\<close>

definition add_route :: "json \<Rightarrow> route \<Rightarrow> json" where
  "add_route ac v =
     (case (ac, v) of
        (JObj kvs, (airline, origin, dest)) \<Rightarrow>
          JObj (AList.update ''destination_name'' dest
                 (AList.update ''origin_name'' origin
                   (AList.update ''airline_name'' airline kvs)))
      | _ \<Rightarrow> ac)"

text \<open>Lines 229 to 239: the enrichment loop over the fetched records.\<close>

fun enrich :: "transport \<Rightarrow> json list \<Rightarrow> app \<Rightarrow> error + (json list \<times> app)" where
  "enrich net [] s = Inr ([], s)"
| "enrich net (ac # acs) s =
     and_then (dict_get ac ''flight'' JNull) (\<lambda>fl.
     and_then (py_strip (py_or fl (JStr []))) (\<lambda>callsign.
     case fetch_route_info net callsign s of
       (v, s1) \<Rightarrow>
         if fst v \<noteq> NA
         then and_then (enrich net acs s1) (\<lambda>(kept, s2). Inr (add_route ac v # kept, s2))
         else enrich net acs s1))"

text \<open>Lines 227 to 239: the position fetch for the area, then the enrichment.\<close>

definition poll :: "transport \<Rightarrow> location \<Rightarrow> app \<Rightarrow> error + (json list \<times> app)" where
  "poll net loc s =
     (case fetch_aircraft net (lat loc) (lon loc) (radius loc) s of
        (aircraft, s1) \<Rightarrow> and_then (py_iter aircraft) (\<lambda>acs. enrich net acs s1))"

text \<open>Lines 244 to 246: the skip to the next area.\<close>

definition skip_forward :: "real \<Rightarrow> app \<Rightarrow> app" where
  "skip_forward now s = s\<lparr>idx := (idx s + 1) mod length LOCATIONS, last_switch := now\<rparr>"

text \<open>One pass through the body of the \<^verbatim>\<open>while True\<close> loop, with the clock reading
  \<open>now\<close> taken at its top. \<open>Inl e\<close> is the exception that leaves \<open>run\<close>.\<close>

definition run_iteration :: "transport \<Rightarrow> real \<Rightarrow> app \<Rightarrow> error + app" where
  "run_iteration net now s =
     (let s1 = timed_switch now s in
      if idx s1 < length LOCATIONS then
        (let loc = LOCATIONS ! idx s1 in
         and_then (poll net loc s1) (\<lambda>(enriched_aircraft, s2).
           if enriched_aircraft \<noteq> []
           then draw net enriched_aircraft (name loc) HOME_COORDS s2
           else Inr (skip_forward now s2)))
      else Inl IndexError)"

text \<open>The loop never ends by itself. \<open>run\<close> is its first passes, one for each clock reading
  of the list, stopping at the first exception.\<close>

fun run :: "transport \<Rightarrow> real list \<Rightarrow> app \<Rightarrow> error + app" where
  "run net [] s = Inr s"
| "run net (now # ts) s = and_then (run_iteration net now s) (run net ts)"

section \<open>Notions used in the statements\<close>







text \<open>The great-circle distance in kilometres by the haversine formula, on a sphere of
  radius 6371.\<close>

definition great_circle_km :: "real \<Rightarrow> real \<Rightarrow> real \<Rightarrow> real \<Rightarrow> real" where
  "great_circle_km lat1 lon1 lat2 lon2 =
     6371 * 2 * atan2 (sqrt (haversine_a lat1 lon1 lat2 lon2))
                      (sqrt (1 - haversine_a lat1 lon1 lat2 lon2))"

text \<open>\<open>later s s'\<close>: the process can be in state \<open>s'\<close> at some point after it was in state
  \<open>s\<close>. Every operation of the program that changes the state is a step, whatever the
  network answers.\<close>

inductive later :: "app \<Rightarrow> app \<Rightarrow> bool" where
  same: "later s s"
| after_route: "later s s1 \<Longrightarrow> fetch_route_info net c s1 = (v, s2) \<Longrightarrow> later s s2"
| after_aircraft: "later s s1 \<Longrightarrow> fetch_aircraft net la lo rad s1 = (v, s2) \<Longrightarrow> later s s2"
| after_logo: "later s s1 \<Longrightarrow> fetch_logo net a s1 = Inr (b, s2) \<Longrightarrow> later s s2"
| after_draw: "later s s1 \<Longrightarrow> draw net acs nm home s1 = Inr s2 \<Longrightarrow> later s s2"
| after_timed_switch: "later s s1 \<Longrightarrow> later s (timed_switch now s1)"
| after_skip_forward: "later s s1 \<Longrightarrow> later s (skip_forward now s1)"

text \<open>\<open>all_skipped net ts s\<close>: in each of the passes at the clock readings \<open>ts\<close> the
  enrichment keeps no aircraft. \<open>within_interval t ts\<close>: each reading is less than the
  switch interval after the one before it, the first one after \<open>t\<close>.\<close>

fun all_skipped :: "transport \<Rightarrow> real list \<Rightarrow> app \<Rightarrow> bool" where
  "all_skipped net [] s = True"
| "all_skipped net (now # ts) s =
     (let s1 = timed_switch now s in
      case poll net (LOCATIONS ! idx s1) s1 of
        Inr ([], s2) \<Rightarrow> all_skipped net ts (skip_forward now s2)
      | _ \<Rightarrow> False)"

fun within_interval :: "real \<Rightarrow> real list \<Rightarrow> bool" where
  "within_interval t [] = True"
| "within_interval t (now # ts) = (now - t < switch_interval \<and> within_interval now ts)"

subsection \<open>Sample inputs\<close>

text \<open>A route document that names an airline, and four worlds: one where every call fails;
  one with a single aircraft whose ground speed is a fractional number; one where the
  ground speed is a text; one where the position service answers with a string in place of
  the list of aircraft.\<close>

definition route_doc :: json where
  "route_doc =
     JObj [(''response'', JObj [(''flightroute'', JObj
       [(''airline'', JObj [(''name'', JStr ''American Airlines'')]),
        (''origin'', JObj [(''name'', JStr ''Austin'')]),
        (''destination'', JObj [(''name'', JStr ''Dallas'')])])])]"

definition down_net :: transport where
  "down_net k rq = Failed"

definition sample_ac :: json where
  "sample_ac =
     JObj [(''flight'', JStr ''AAL1   ''), (''alt_baro'', JInt 35000), (''gs'', JFloat 450.7)]"

definition sample_net :: transport where
  "sample_net k rq =
     (case rq of
        PointQuery la lo rad \<Rightarrow> Response 200 (Json (JObj [(''ac'', JArr [sample_ac])]))
      | CallsignQuery c \<Rightarrow> Response 200 (Json route_doc)
      | LogoQuery d \<Rightarrow> Response 404 Garbage)"

definition text_speed_net :: transport where
  "text_speed_net k rq =
     (case rq of
        PointQuery la lo rad \<Rightarrow>
          Response 200 (Json (JObj [(''ac'',
            JArr [JObj [(''flight'', JStr ''AAL1''), (''alt_baro'', JStr ''ground''),
                        (''gs'', JStr ''fast'')]])]))
      | CallsignQuery c \<Rightarrow> Response 200 (Json route_doc)
      | LogoQuery d \<Rightarrow> Failed)"

definition string_ac_net :: transport where
  "string_ac_net k rq = Response 200 (Json (JObj [(''ac'', JStr ''abc'')]))"

definition london_ac :: json where
  "london_ac =
     JObj [(''flight'', JStr ''BAW123''), (''alt_baro'', JInt 37000), (''gs'', JInt 480),
           (''lat'', JFloat 51.5), (''lon'', JInt 0),
           (''airline_name'', JStr ''British Airways''),
           (''origin_name'', JStr ''London Heathrow''),
           (''destination_name'', JStr ''Austin'')]"

section \<open>Basic facts\<close>

lemmas world_defs = init_def timed_switch_def switch_interval_def LOCATIONS_def HOME_COORDS_def
  MAX_AIRCRAFT_def AIRLINE_LOGO_DOMAINS_def NA_def

lemmas value_defs = dict_get_def py_or_def py_and_def py_strip_def strip_def py_isspace_def
  py_slice_def py_iter_def py_float_def int_of_str_def is_digit_def digit_val_def py_trunc_def

lemmas fetch_defs = checked_def response_json_def aircraft_of_def fetch_aircraft_def
  route_of_def fetch_route_info_def logo_domain_def image_of_def fetch_logo_def

lemmas loop_defs = poll_def add_route_def skip_forward_def run_iteration_def Let_def

lemma and_then_Inr: "and_then m f = Inr y \<Longrightarrow> \<exists>x. m = Inr x \<and> f x = Inr y"
  by (cases m) auto

lemma length_LOCATIONS: "length LOCATIONS = 3"
  by (simp add: LOCATIONS_def)

section \<open>The built-in \<open>int\<close> and \<open>parse_altitude\<close>\<close>















text \<open>\<open>parse_altitude\<close> returns on every value of the model. (On an infinite float \<open>int\<close>
  raises an \<open>OverflowError\<close>, which is not caught; the model has no such float.)\<close>

lemma parse_altitude_returns: "\<exists>n. parse_altitude v = Inr n"
  by (cases v) (auto simp: parse_altitude_def split: option.splits)





section \<open>The colour helpers\<close>

















section \<open>The callsign cache\<close>

lemma later_trans: "later s1 s2 \<Longrightarrow> later s s1 \<Longrightarrow> later s s2"
  by (induction rule: later.induct) (auto intro: later.intros)

lemma fetch_route_info_hit:
  "callsign_cache s c = Some v \<Longrightarrow> fetch_route_info net c s = (v, s)"
  by (simp add: fetch_route_info_def)

lemma fetch_route_info_stored:
  "fetch_route_info net c s = (v, s') \<Longrightarrow> callsign_cache s' c = Some v"
  by (auto simp: fetch_route_info_def Let_def split: option.splits if_splits)

lemma fetch_route_info_keeps:
  "fetch_route_info net c s = (v, s') \<Longrightarrow> callsign_cache s k = Some w \<Longrightarrow>
   callsign_cache s' k = Some w"
  by (auto simp: fetch_route_info_def Let_def split: option.splits if_splits)

lemma fetch_aircraft_cache:
  "fetch_aircraft net la lo rad s = (v, s') \<Longrightarrow> callsign_cache s' = callsign_cache s"
  by (auto simp: fetch_aircraft_def Let_def split: sum.splits)

lemma fetch_logo_cache:
  "fetch_logo net a s = Inr (b, s') \<Longrightarrow> callsign_cache s' = callsign_cache s"
  by (auto simp: fetch_logo_def Let_def dest!: and_then_Inr split: option.splits if_splits sum.splits)

lemma draw_cache: "draw net acs nm home s = Inr s' \<Longrightarrow> callsign_cache s' = callsign_cache s"
  by (cases acs) (auto simp: draw_def Let_def dest!: and_then_Inr dest: fetch_logo_cache)

text \<open>The cache only grows: an entry, once made, is there at every later point.\<close>

lemma later_keeps:
  "later s s' \<Longrightarrow> callsign_cache s k = Some w \<Longrightarrow> callsign_cache s' k = Some w"
  by (induction rule: later.induct)
     (auto simp: fetch_aircraft_cache fetch_logo_cache draw_cache timed_switch_def skip_forward_def
           dest: fetch_route_info_keeps)

text \<open>The passes of the loop only take steps of \<open>later\<close>.\<close>

lemma enrich_later: "enrich net acs s = Inr (kept, s') \<Longrightarrow> later s s'"
proof (induction acs arbitrary: s kept)
  case Nil
  then show ?case by (simp add: later.same)
next
  case (Cons ac acs)
  from Cons.prems obtain callsign v s1 k where
    f: "fetch_route_info net callsign s = (v, s1)" and r: "enrich net acs s1 = Inr (k, s')"
    by (auto dest!: and_then_Inr split: prod.splits if_splits)
  from f have "later s s1" by (rule later.after_route[OF later.same])
  moreover from r have "later s1 s'" by (rule Cons.IH)
  ultimately show ?case using later_trans by blast
qed

lemma poll_later:
  assumes a: "poll net loc s = Inr (kept, s')"
  shows "later s s'"
proof -
  obtain v s1 where f: "fetch_aircraft net (lat loc) (lon loc) (radius loc) s = (v, s1)"
    by (cases "fetch_aircraft net (lat loc) (lon loc) (radius loc) s")
  with a obtain acs where e: "enrich net acs s1 = Inr (kept, s')"
    by (auto simp: poll_def dest!: and_then_Inr)
  from f have "later s s1" by (rule later.after_aircraft[OF later.same])
  with enrich_later[OF e] show ?thesis using later_trans by blast
qed

lemma run_iteration_later:
  assumes a: "run_iteration net now s = Inr s'"
  shows "later s s'"
proof -
  let ?s1 = "timed_switch now s"
  have 1: "later s ?s1" by (rule later.after_timed_switch[OF later.same])
  from a obtain kept s2 where p: "poll net (LOCATIONS ! idx ?s1) ?s1 = Inr (kept, s2)"
    and r: "(kept \<noteq> [] \<and> draw net kept (name (LOCATIONS ! idx ?s1)) HOME_COORDS s2 = Inr s')
          \<or> (kept = [] \<and> s' = skip_forward now s2)"
    by (auto simp: run_iteration_def Let_def dest!: and_then_Inr split: if_splits)
  from p have 2: "later ?s1 s2" by (rule poll_later)
  from r have 3: "later s2 s'" by (auto intro: later.intros)
  from 3 2 1 show ?thesis by (blast intro: later_trans)
qed

lemma run_later: "run net ts s = Inr s' \<Longrightarrow> later s s'"
proof (induction ts arbitrary: s)
  case Nil
  then show ?case by (simp add: later.same)
next
  case (Cons now ts)
  then obtain s1 where "run_iteration net now s = Inr s1" "run net ts s1 = Inr s'"
    by (auto dest!: and_then_Inr)
  then show ?case using Cons.IH run_iteration_later later_trans by blast
qed

text \<open>
  Claim C3. After one call of \<open>fetch_route_info\<close> for a callsign, which may be any string,
  the empty one included, a second call for the same callsign returns the same route and
  leaves the state as it is, so that it sends no request. This holds for a call made right
  away and for one made at any later point of the process, whatever the network would
  answer then.
\<close>

theorem route_cache_second_call:
  assumes "fetch_route_info net c s = (v, s1)"
  shows "fetch_route_info net' c s1 = (v, s1)
       \<and> (\<forall>s2. later s1 s2 \<longrightarrow>
             fetch_route_info net' c s2 = (v, s2)
           \<and> sent (snd (fetch_route_info net' c s2)) = sent s2)"
proof -
  from assms have st: "callsign_cache s1 c = Some v" by (rule fetch_route_info_stored)
  then have 1: "fetch_route_info net' c s1 = (v, s1)" by (rule fetch_route_info_hit)
  have 2: "\<forall>s2. later s1 s2 \<longrightarrow>
             fetch_route_info net' c s2 = (v, s2)
           \<and> sent (snd (fetch_route_info net' c s2)) = sent s2"
  proof (intro allI impI)
    fix s2
    assume "later s1 s2"
    then have "callsign_cache s2 c = Some v" using st by (rule later_keeps)
    then have "fetch_route_info net' c s2 = (v, s2)" by (rule fetch_route_info_hit)
    then show "fetch_route_info net' c s2 = (v, s2)
           \<and> sent (snd (fetch_route_info net' c s2)) = sent s2" by simp
  qed
  from 1 2 show ?thesis by (rule conjI)
qed

theorem route_cache_second_call_witness:
  "(\<exists>s1. fetch_route_info sample_net ''AAL1'' (init 0) =
            ((JStr ''American Airlines'', JStr ''Austin'', JStr ''Dallas''), s1)
        \<and> sent s1 = [CallsignQuery ''AAL1'']
        \<and> fetch_route_info down_net ''AAL1'' s1 =
            ((JStr ''American Airlines'', JStr ''Austin'', JStr ''Dallas''), s1))
   \<and> (\<exists>s1. fetch_route_info sample_net [] (init 0) = ((NA, NA, NA), s1)
        \<and> sent s1 = []
        \<and> fetch_route_info sample_net [] s1 = ((NA, NA, NA), s1))"
proof -
  let ?v = "(JStr ''American Airlines'', JStr ''Austin'', JStr ''Dallas'')"
  let ?s1 = "(init 0)\<lparr>sent := [CallsignQuery ''AAL1''],
                        callsign_cache := [''AAL1'' \<mapsto> ?v]\<rparr>"
  let ?s2 = "(init 0)\<lparr>callsign_cache := [[] \<mapsto> (NA, NA, NA)]\<rparr>"
  have a: "fetch_route_info sample_net ''AAL1'' (init 0) = (?v, ?s1)"
    by (simp add: sample_net_def route_doc_def world_defs value_defs fetch_defs Let_def)
  have b: "fetch_route_info sample_net [] (init 0) = ((NA, NA, NA), ?s2)"
    by (simp add: fetch_route_info_def init_def)
  from route_cache_second_call[OF a, of down_net]
  have 1: "fetch_route_info down_net ''AAL1'' ?s1 = (?v, ?s1)" by (rule conjunct1)
  from route_cache_second_call[OF b, of sample_net]
  have 2: "fetch_route_info sample_net [] ?s2 = ((NA, NA, NA), ?s2)" by (rule conjunct1)
  have 3: "sent ?s1 = [CallsignQuery ''AAL1'']" "sent ?s2 = []" by (simp_all add: init_def)
  from a 1 3(1) have l: "\<exists>s1. fetch_route_info sample_net ''AAL1'' (init 0) = (?v, s1)
        \<and> sent s1 = [CallsignQuery ''AAL1'']
        \<and> fetch_route_info down_net ''AAL1'' s1 = (?v, s1)" by blast
  from b 2 3(2) have r: "\<exists>s1. fetch_route_info sample_net [] (init 0) = ((NA, NA, NA), s1)
        \<and> sent s1 = []
        \<and> fetch_route_info sample_net [] s1 = ((NA, NA, NA), s1)" by blast
  from l r show ?thesis by (rule conjI)
qed

text \<open>
  Claim C7. When the lookup for a non-empty callsign that is not yet in the cache fails,
  that is, when the request, the status check, the decoding of the body or the extraction
  of the route raises, \<open>fetch_route_info\<close> sends that one request, returns the sentinel
  route with \<open>N/A\<close> in its three fields and stores it for the callsign. From then on, at
  every later point of the process and whatever the network would answer, a call for
  that callsign returns the sentinel and leaves the state as it is: no request is sent.
\<close>

theorem failed_lookup_cached_for_good:
  assumes "c \<noteq> []" and "callsign_cache s c = None"
    and "route_of (net (length (sent s)) (CallsignQuery c)) = Inl e"
  shows "\<exists>s1. fetch_route_info net c s = ((NA, NA, NA), s1)
           \<and> callsign_cache s1 c = Some (NA, NA, NA)
           \<and> sent s1 = sent s @ [CallsignQuery c]
           \<and> (\<forall>s2 net'. later s1 s2 \<longrightarrow>
                 fetch_route_info net' c s2 = ((NA, NA, NA), s2)
               \<and> sent (snd (fetch_route_info net' c s2)) = sent s2)"
proof -
  let ?s1 = "s\<lparr>sent := sent s @ [CallsignQuery c],
               callsign_cache := (callsign_cache s)(c \<mapsto> (NA, NA, NA))\<rparr>"
  have 1: "fetch_route_info net c s = ((NA, NA, NA), ?s1)"
    using assms by (simp add: fetch_route_info_def Let_def)
  have 2: "callsign_cache ?s1 c = Some (NA, NA, NA)" by simp
  have 3: "sent ?s1 = sent s @ [CallsignQuery c]" by simp
  have 4: "\<forall>s2 net'. later ?s1 s2 \<longrightarrow>
                 fetch_route_info net' c s2 = ((NA, NA, NA), s2)
               \<and> sent (snd (fetch_route_info net' c s2)) = sent s2"
  proof (intro allI impI)
    fix s2 net'
    assume "later ?s1 s2"
    then have "callsign_cache s2 c = Some (NA, NA, NA)" using 2 by (rule later_keeps)
    then have "fetch_route_info net' c s2 = ((NA, NA, NA), s2)" by (rule fetch_route_info_hit)
    then show "fetch_route_info net' c s2 = ((NA, NA, NA), s2)
               \<and> sent (snd (fetch_route_info net' c s2)) = sent s2" by simp
  qed
  from 1 2 3 4 show ?thesis by blast
qed

theorem failed_lookup_cached_for_good_witness:
  "''AAL1'' \<noteq> [] \<and> callsign_cache (init 0) ''AAL1'' = None
   \<and> route_of (down_net (length (sent (init 0))) (CallsignQuery ''AAL1'')) = Inl ConnectionError
   \<and> (\<exists>s1. fetch_route_info down_net ''AAL1'' (init 0) = ((NA, NA, NA), s1)
         \<and> sent s1 = [CallsignQuery ''AAL1'']
         \<and> fetch_route_info sample_net ''AAL1'' s1 = ((NA, NA, NA), s1))"
proof -
  have a: "''AAL1'' \<noteq> []" by simp
  have b: "callsign_cache (init 0) ''AAL1'' = None" by (simp add: init_def)
  have c: "route_of (down_net (length (sent (init 0))) (CallsignQuery ''AAL1'')) = Inl ConnectionError"
    by (simp add: down_net_def route_of_def response_json_def checked_def)
  from failed_lookup_cached_for_good[of "''AAL1''" "init 0" down_net ConnectionError, OF a b c]
  obtain s1 where
    1: "fetch_route_info down_net ''AAL1'' (init 0) = ((NA, NA, NA), s1)" and
    2: "sent s1 = sent (init 0) @ [CallsignQuery ''AAL1'']" and
    3: "\<forall>s2 net'. later s1 s2 \<longrightarrow> fetch_route_info net' ''AAL1'' s2 = ((NA, NA, NA), s2)
               \<and> sent (snd (fetch_route_info net' ''AAL1'' s2)) = sent s2"
    by blast
  from 3 later.same[of s1] have 4: "fetch_route_info sample_net ''AAL1'' s1 = ((NA, NA, NA), s1)"
    by blast
  from 2 have 5: "sent s1 = [CallsignQuery ''AAL1'']" by (simp add: init_def)
  from a b c 1 4 5 show ?thesis by blast
qed

section \<open>The scheduler loop\<close>

lemma fetch_route_info_sched:
  "fetch_route_info net c s = (v, s') \<Longrightarrow> idx s' = idx s \<and> last_switch s' = last_switch s"
  by (auto simp: fetch_route_info_def Let_def split: option.splits if_splits)

lemma fetch_aircraft_sched:
  "fetch_aircraft net la lo rad s = (v, s') \<Longrightarrow> idx s' = idx s \<and> last_switch s' = last_switch s"
  by (auto simp: fetch_aircraft_def Let_def split: sum.splits)

lemma fetch_logo_sched:
  "fetch_logo net a s = Inr (b, s') \<Longrightarrow> idx s' = idx s \<and> last_switch s' = last_switch s"
  by (auto simp: fetch_logo_def Let_def dest!: and_then_Inr split: option.splits if_splits sum.splits)

lemma draw_sched:
  "draw net acs nm home s = Inr s' \<Longrightarrow> idx s' = idx s \<and> last_switch s' = last_switch s"
  by (cases acs) (auto simp: draw_def Let_def dest!: and_then_Inr dest: fetch_logo_sched)

lemma enrich_sched:
  "enrich net acs s = Inr (kept, s') \<Longrightarrow> idx s' = idx s \<and> last_switch s' = last_switch s"
proof (induction acs arbitrary: s kept)
  case Nil
  then show ?case by simp
next
  case (Cons ac acs)
  from Cons.prems obtain callsign v s1 k where
    f: "fetch_route_info net callsign s = (v, s1)" and r: "enrich net acs s1 = Inr (k, s')"
    by (auto dest!: and_then_Inr split: prod.splits if_splits)
  from Cons.IH[OF r] fetch_route_info_sched[OF f] show ?case by simp
qed

lemma poll_sched:
  assumes a: "poll net loc s = Inr (kept, s')"
  shows "idx s' = idx s \<and> last_switch s' = last_switch s"
proof -
  obtain v s1 where f: "fetch_aircraft net (lat loc) (lon loc) (radius loc) s = (v, s1)"
    by (cases "fetch_aircraft net (lat loc) (lon loc) (radius loc) s")
  with a obtain acs where e: "enrich net acs s1 = Inr (kept, s')"
    by (auto simp: poll_def dest!: and_then_Inr)
  from enrich_sched[OF e] fetch_aircraft_sched[OF f] show ?thesis by simp
qed

lemma timed_switch_idx:
  "idx (timed_switch now s) =
     (if now - last_switch s \<ge> 300 then (idx s + 1) mod length LOCATIONS else idx s)"
  by (simp add: timed_switch_def switch_interval_def)

lemma timed_switch_last:
  "last_switch (timed_switch now s) =
     (if now - last_switch s \<ge> 300 then now else last_switch s)"
  by (simp add: timed_switch_def switch_interval_def)

lemma timed_switch_in_range:
  "idx s < length LOCATIONS \<Longrightarrow> idx (timed_switch now s) < length LOCATIONS"
  by (simp add: timed_switch_def length_LOCATIONS)

lemma run_iteration_empty:
  assumes "idx s < length LOCATIONS"
    and "poll net (LOCATIONS ! idx (timed_switch now s)) (timed_switch now s) = Inr ([], s2)"
  shows "run_iteration net now s = Inr (skip_forward now s2)"
  using assms timed_switch_in_range[of s now] by (simp add: run_iteration_def Let_def)

lemma run_iteration_nonempty:
  assumes "run_iteration net now s = Inr s'"
    and "poll net (LOCATIONS ! idx (timed_switch now s)) (timed_switch now s) = Inr (kept, s2)"
    and "kept \<noteq> []"
  shows "idx s' = idx (timed_switch now s) \<and> last_switch s' = last_switch (timed_switch now s)"
  using assms poll_sched[OF assms(2)]
  by (auto simp: run_iteration_def Let_def split: if_splits dest: draw_sched)

text \<open>The index stays inside the list of areas, so the lookup of the area never fails.\<close>

lemma run_iteration_in_range:
  assumes a: "run_iteration net now s = Inr s'"
  shows "idx s' < length LOCATIONS"
proof -
  let ?s1 = "timed_switch now s"
  from a have r: "idx ?s1 < length LOCATIONS"
    by (auto simp: run_iteration_def Let_def split: if_splits)
  with a obtain kept s2 where p: "poll net (LOCATIONS ! idx ?s1) ?s1 = Inr (kept, s2)"
    and d: "(kept \<noteq> [] \<and> draw net kept (name (LOCATIONS ! idx ?s1)) HOME_COORDS s2 = Inr s')
          \<or> (kept = [] \<and> s' = skip_forward now s2)"
    by (auto simp: run_iteration_def Let_def dest!: and_then_Inr split: if_splits)
  from d show ?thesis
  proof
    assume "kept \<noteq> [] \<and> draw net kept (name (LOCATIONS ! idx ?s1)) HOME_COORDS s2 = Inr s'"
    then have "idx s' = idx s2" using draw_sched by blast
    with poll_sched[OF p] r show ?thesis by simp
  next
    assume "kept = [] \<and> s' = skip_forward now s2"
    then show ?thesis by (simp add: skip_forward_def length_LOCATIONS)
  qed
qed

lemma run_in_range:
  "idx s < length LOCATIONS \<Longrightarrow> run net ts s = Inr s' \<Longrightarrow> idx s' < length LOCATIONS"
proof (induction ts arbitrary: s)
  case Nil
  then show ?case by simp
next
  case (Cons now ts)
  from Cons.prems(2) obtain s1 where 1: "run_iteration net now s = Inr s1"
    and 2: "run net ts s1 = Inr s'"
    by (auto dest!: and_then_Inr)
  from Cons.IH[OF run_iteration_in_range[OF 1] 2] show ?case .
qed

text \<open>
  Claim C4. In one pass of the loop, with the index inside the list of areas (as it always
  is): when at least 300 seconds have passed since the last switch, the timed rotation
  moves the index to the next area once, wrapping around modulo the number of areas (three),
  and sets the time of the last switch to the clock reading; otherwise it leaves both as
  they are. When the enrichment then keeps no aircraft, the pass ends normally and has moved
  the index once more, whatever the elapsed time is. When it keeps some aircraft and the
  pass ends normally, the index and the time of the last switch stay as the timed rotation
  left them.
\<close>

theorem area_rotation:
  assumes "idx s < length LOCATIONS"
  shows "idx (timed_switch now s) =
           (if now - last_switch s \<ge> 300 then (idx s + 1) mod length LOCATIONS else idx s)
       \<and> last_switch (timed_switch now s) =
           (if now - last_switch s \<ge> 300 then now else last_switch s)
       \<and> (\<forall>net s2.
             poll net (LOCATIONS ! idx (timed_switch now s)) (timed_switch now s) = Inr ([], s2) \<longrightarrow>
             (\<exists>s'. run_iteration net now s = Inr s'
                \<and> idx s' = (idx (timed_switch now s) + 1) mod length LOCATIONS))
       \<and> (\<forall>net kept s2 s'.
             poll net (LOCATIONS ! idx (timed_switch now s)) (timed_switch now s) = Inr (kept, s2)
             \<and> kept \<noteq> [] \<and> run_iteration net now s = Inr s' \<longrightarrow>
             idx s' = idx (timed_switch now s)
             \<and> last_switch s' = last_switch (timed_switch now s))
       \<and> length LOCATIONS = 3"
proof -
  have a: "\<forall>net s2.
             poll net (LOCATIONS ! idx (timed_switch now s)) (timed_switch now s) = Inr ([], s2) \<longrightarrow>
             (\<exists>s'. run_iteration net now s = Inr s'
                \<and> idx s' = (idx (timed_switch now s) + 1) mod length LOCATIONS)"
  proof (intro allI impI)
    fix net s2
    assume p: "poll net (LOCATIONS ! idx (timed_switch now s)) (timed_switch now s) = Inr ([], s2)"
    from run_iteration_empty[OF assms p] poll_sched[OF p]
    show "\<exists>s'. run_iteration net now s = Inr s'
                \<and> idx s' = (idx (timed_switch now s) + 1) mod length LOCATIONS"
      by (simp add: skip_forward_def)
  qed
  have b: "\<forall>net kept s2 s'.
             poll net (LOCATIONS ! idx (timed_switch now s)) (timed_switch now s) = Inr (kept, s2)
             \<and> kept \<noteq> [] \<and> run_iteration net now s = Inr s' \<longrightarrow>
             idx s' = idx (timed_switch now s)
             \<and> last_switch s' = last_switch (timed_switch now s)"
  proof (intro allI impI)
    fix net kept s2 s'
    assume h: "poll net (LOCATIONS ! idx (timed_switch now s)) (timed_switch now s) = Inr (kept, s2)
             \<and> kept \<noteq> [] \<and> run_iteration net now s = Inr s'"
    then show "idx s' = idx (timed_switch now s)
             \<and> last_switch s' = last_switch (timed_switch now s)"
      using run_iteration_nonempty[of net now s s' kept s2] by simp
  qed
  note c = timed_switch_idx[of now s]
  note d = timed_switch_last[of now s]
  show ?thesis by (rule conjI[OF c conjI[OF d conjI[OF a conjI[OF b length_LOCATIONS]]]])
qed

lemma poll_down_net: "poll down_net loc s = Inr ([], s\<lparr>sent := sent s @ [PointQuery (lat loc) (lon loc) (radius loc)]\<rparr>)"
  by (simp add: poll_def fetch_aircraft_def aircraft_of_def response_json_def checked_def
        down_net_def py_iter_def Let_def)

lemma enriched_sample:
  "\<exists>ac s2. poll sample_net (LOCATIONS ! idx (timed_switch 100 (init 0))) (timed_switch 100 (init 0))
             = Inr ([ac], s2)"
  by (simp add: sample_net_def sample_ac_def route_doc_def world_defs value_defs fetch_defs loop_defs)

lemma drawn_sample: "\<exists>s'. run_iteration sample_net 100 (init 0) = Inr s'"
  by (simp add: sample_net_def sample_ac_def route_doc_def world_defs value_defs fetch_defs loop_defs
        draw_def ground_speed_def parse_altitude_def distance_km_def)

theorem area_rotation_witness:
  "idx (init 0) < length LOCATIONS
   \<and> idx (timed_switch 299 (init 0)) = 0 \<and> last_switch (timed_switch 299 (init 0)) = 0
   \<and> idx (timed_switch 300 (init 0)) = 1 \<and> last_switch (timed_switch 300 (init 0)) = 300
   \<and> idx (timed_switch 900 ((init 0)\<lparr>idx := 2\<rparr>)) = 0
   \<and> (\<exists>s'. run_iteration down_net 10 (init 0) = Inr s' \<and> idx s' = 1)
   \<and> (\<exists>s'. run_iteration down_net 300 (init 0) = Inr s' \<and> idx s' = 2)
   \<and> (\<exists>s'. run_iteration sample_net 100 (init 0) = Inr s' \<and> idx s' = 0 \<and> last_switch s' = 0)"
proof -
  have r: "idx (init 0) < length LOCATIONS" by (simp add: init_def length_LOCATIONS)
  have r2: "idx ((init 0)\<lparr>idx := 2\<rparr>) < length LOCATIONS" by (simp add: length_LOCATIONS)
  note t = area_rotation[OF r]
  have 1: "idx (timed_switch 299 (init 0)) = 0 \<and> last_switch (timed_switch 299 (init 0)) = 0"
    using t[of 299] by (simp add: init_def)
  have 2: "idx (timed_switch 300 (init 0)) = 1 \<and> last_switch (timed_switch 300 (init 0)) = 300"
    using t[of 300] by (simp add: init_def length_LOCATIONS)
  have 3: "idx (timed_switch 900 ((init 0)\<lparr>idx := 2\<rparr>)) = 0"
    using area_rotation[OF r2, of 900] by (simp add: init_def length_LOCATIONS)
  have 4: "\<exists>s'. run_iteration down_net 10 (init 0) = Inr s' \<and> idx s' = 1"
  proof -
    from t[of 10] poll_down_net obtain s' where "run_iteration down_net 10 (init 0) = Inr s'"
      "idx s' = (idx (timed_switch 10 (init 0)) + 1) mod length LOCATIONS" by blast
    then show ?thesis by (auto simp: timed_switch_def switch_interval_def init_def length_LOCATIONS)
  qed
  have 5: "\<exists>s'. run_iteration down_net 300 (init 0) = Inr s' \<and> idx s' = 2"
  proof -
    from t[of 300] poll_down_net obtain s' where "run_iteration down_net 300 (init 0) = Inr s'"
      "idx s' = (idx (timed_switch 300 (init 0)) + 1) mod length LOCATIONS" by blast
    then show ?thesis by (auto simp: timed_switch_def switch_interval_def init_def length_LOCATIONS)
  qed
  have 6: "\<exists>s'. run_iteration sample_net 100 (init 0) = Inr s' \<and> idx s' = 0 \<and> last_switch s' = 0"
  proof -
    from enriched_sample obtain ac s2 where
      p: "poll sample_net (LOCATIONS ! idx (timed_switch 100 (init 0))) (timed_switch 100 (init 0))
             = Inr ([ac], s2)" by blast
    from drawn_sample obtain s' where d: "run_iteration sample_net 100 (init 0) = Inr s'" by blast
    from t[of 100] p d have "idx s' = idx (timed_switch 100 (init 0))
             \<and> last_switch s' = last_switch (timed_switch 100 (init 0))" by blast
    with d show ?thesis by (auto simp: timed_switch_def switch_interval_def init_def)
  qed
  from r 1 2 3 4 5 6 show ?thesis by blast
qed

lemma skipping_run:
  "idx s < length LOCATIONS \<Longrightarrow> all_skipped net ts s \<Longrightarrow> within_interval (last_switch s) ts \<Longrightarrow>
   \<exists>s'. run net ts s = Inr s' \<and> idx s' = (idx s + length ts) mod length LOCATIONS
        \<and> last_switch s' = last (last_switch s # ts)"
proof (induction ts arbitrary: s)
  case Nil
  then show ?case by simp
next
  case (Cons now ts)
  from Cons.prems(3) have ts1: "timed_switch now s = s" and w: "within_interval now ts"
    by (simp_all add: timed_switch_def)
  from Cons.prems(2) ts1 have
    sk: "(case poll net (LOCATIONS ! idx s) s of
            Inr ([], s2) \<Rightarrow> all_skipped net ts (skip_forward now s2) | _ \<Rightarrow> False)"
    by (simp add: Let_def)
  then obtain kept s2 where p0: "poll net (LOCATIONS ! idx s) s = Inr (kept, s2)"
    by (cases "poll net (LOCATIONS ! idx s) s") auto
  with sk have k: "kept = []" by (cases kept) auto
  from p0 k have p: "poll net (LOCATIONS ! idx s) s = Inr ([], s2)" by simp
  from sk p have rest: "all_skipped net ts (skip_forward now s2)" by simp
  from p ts1 have it: "run_iteration net now s = Inr (skip_forward now s2)"
    using run_iteration_empty[OF Cons.prems(1), of net now s2] by simp
  have i: "idx (skip_forward now s2) = (idx s + 1) mod length LOCATIONS"
    and l: "last_switch (skip_forward now s2) = now"
    using poll_sched[OF p] by (simp_all add: skip_forward_def)
  from i have r: "idx (skip_forward now s2) < length LOCATIONS" by (simp add: length_LOCATIONS)
  from Cons.IH[OF r rest] w l obtain s' where
    s': "run net ts (skip_forward now s2) = Inr s'"
        "idx s' = (idx (skip_forward now s2) + length ts) mod length LOCATIONS"
        "last_switch s' = last (now # ts)"
    by auto
  from s' it i show ?case by (auto simp: mod_simps)
qed

text \<open>
  Claim C5. A pass in which the enrichment keeps no aircraft ends normally with the index
  moved to the next area and the time of the last switch set to the clock reading of that
  pass. So in a run of passes that all keep no aircraft, each less than the switch interval
  after the one before, the timed rotation never fires and still the index moves by one
  area in every pass: after as many passes as there are areas, the whole list has been gone
  through, however short the time between the passes.
\<close>

theorem skip_resets_timer:
  assumes "idx s < length LOCATIONS"
  shows "(\<forall>net now s2.
            poll net (LOCATIONS ! idx (timed_switch now s)) (timed_switch now s) = Inr ([], s2) \<longrightarrow>
            (\<exists>s'. run_iteration net now s = Inr s'
               \<and> idx s' = (idx (timed_switch now s) + 1) mod length LOCATIONS
               \<and> last_switch s' = now))
       \<and> (\<forall>net ts. all_skipped net ts s \<and> within_interval (last_switch s) ts \<longrightarrow>
            (\<exists>s'. run net ts s = Inr s'
               \<and> idx s' = (idx s + length ts) mod length LOCATIONS
               \<and> last_switch s' = last (last_switch s # ts)))"
proof -
  have a: "\<forall>net now s2.
            poll net (LOCATIONS ! idx (timed_switch now s)) (timed_switch now s) = Inr ([], s2) \<longrightarrow>
            (\<exists>s'. run_iteration net now s = Inr s'
               \<and> idx s' = (idx (timed_switch now s) + 1) mod length LOCATIONS
               \<and> last_switch s' = now)"
  proof (intro allI impI)
    fix net now s2
    assume p: "poll net (LOCATIONS ! idx (timed_switch now s)) (timed_switch now s) = Inr ([], s2)"
    from run_iteration_empty[OF assms p] poll_sched[OF p]
    show "\<exists>s'. run_iteration net now s = Inr s'
               \<and> idx s' = (idx (timed_switch now s) + 1) mod length LOCATIONS
               \<and> last_switch s' = now"
      by (simp add: skip_forward_def)
  qed
  have b: "\<forall>net ts. all_skipped net ts s \<and> within_interval (last_switch s) ts \<longrightarrow>
            (\<exists>s'. run net ts s = Inr s'
               \<and> idx s' = (idx s + length ts) mod length LOCATIONS
               \<and> last_switch s' = last (last_switch s # ts))"
    using skipping_run[OF assms] by blast
  from a b show ?thesis by (rule conjI)
qed

lemma all_skipped_down_net: "all_skipped down_net ts s"
  by (induction ts arbitrary: s) (simp_all add: poll_down_net Let_def)

theorem skip_resets_timer_witness:
  "idx (init 0) < length LOCATIONS
   \<and> all_skipped down_net [10, 20, 30] (init 0)
   \<and> within_interval (last_switch (init 0)) [10, 20, 30]
   \<and> (\<exists>s'. run down_net [10] (init 0) = Inr s' \<and> idx s' = 1 \<and> last_switch s' = 10)
   \<and> (\<exists>s'. run down_net [10, 20] (init 0) = Inr s' \<and> idx s' = 2 \<and> last_switch s' = 20)
   \<and> (\<exists>s'. run down_net [10, 20, 30] (init 0) = Inr s' \<and> idx s' = 0 \<and> last_switch s' = 30)
   \<and> (30::real) < switch_interval"
proof -
  have r: "idx (init 0) < length LOCATIONS" by (simp add: init_def length_LOCATIONS)
  note t = skip_resets_timer[OF r, THEN conjunct2, rule_format, OF conjI]
  have w: "within_interval (last_switch (init 0)) [10]"
    "within_interval (last_switch (init 0)) [10, 20]"
    "within_interval (last_switch (init 0)) [10, 20, 30]"
    by (simp_all add: init_def switch_interval_def)
  from t[OF all_skipped_down_net w(1)]
  have 1: "\<exists>s'. run down_net [10] (init 0) = Inr s' \<and> idx s' = 1 \<and> last_switch s' = 10"
    by (simp add: init_def length_LOCATIONS del: run.simps)
  from t[OF all_skipped_down_net w(2)]
  have 2: "\<exists>s'. run down_net [10, 20] (init 0) = Inr s' \<and> idx s' = 2 \<and> last_switch s' = 20"
    by (simp add: init_def length_LOCATIONS numeral_2_eq_2 del: run.simps)
  from t[OF all_skipped_down_net w(3)]
  have 3: "\<exists>s'. run down_net [10, 20, 30] (init 0) = Inr s' \<and> idx s' = 0 \<and> last_switch s' = 30"
    by (simp add: init_def length_LOCATIONS del: run.simps)
  have 4: "(30::real) < switch_interval" by (simp add: switch_interval_def)
  from r all_skipped_down_net w(3) 1 2 3 4 show ?thesis by blast
qed

section \<open>The position fetch\<close>

text \<open>What \<open>fetch_aircraft\<close> returns, by the answer of the position service. It never
  raises: every exception of the request, of the status check, of the decoding and of the
  slice is caught and gives the empty list. A list under the key \<open>ac\<close> is cut to its first
  20 elements. A string under that key is cut to its first 20 characters and returned too,
  since a string can be sliced as well.\<close>

lemma fetch_aircraft_cases:
  "fst (fetch_aircraft net la lo rad s) =
     (case net (length (sent s)) (PointQuery la lo rad) of
        Response code (Json (JObj kvs)) \<Rightarrow>
          if 400 \<le> code \<and> code < 600 then JArr []
          else (case map_of kvs ''ac'' of
                  None \<Rightarrow> JArr []
                | Some (JArr xs) \<Rightarrow> JArr (take 20 xs)
                | Some (JStr t) \<Rightarrow> JStr (take 20 t)
                | Some other \<Rightarrow> JArr [])
      | other \<Rightarrow> JArr [])"
  by (auto simp: fetch_aircraft_def aircraft_of_def response_json_def checked_def dict_get_def
        py_slice_def MAX_AIRCRAFT_def Let_def
        split: http.splits content.splits json.splits option.splits)

lemma fetch_aircraft_sends_one:
  "sent (snd (fetch_aircraft net la lo rad s)) = sent s @ [PointQuery la lo rad]"
  by (simp add: fetch_aircraft_def Let_def split: sum.splits)

lemma fetch_aircraft_list:
  assumes "net (length (sent s)) (PointQuery la lo rad) = Response code (Json (JObj kvs))"
    and "\<not> (400 \<le> code \<and> code < 600)" and "map_of kvs ''ac'' = Some (JArr xs)"
  shows "fst (fetch_aircraft net la lo rad s) = JArr (take 20 xs) \<and> length (take 20 xs) \<le> 20"
  using assms by (auto simp: fetch_aircraft_cases)

lemma fetch_aircraft_failures:
  "net (length (sent s)) (PointQuery la lo rad) = Failed \<Longrightarrow>
     fst (fetch_aircraft net la lo rad s) = JArr []"
  "net (length (sent s)) (PointQuery la lo rad) = Response code body \<Longrightarrow>
     400 \<le> code \<and> code < 600 \<Longrightarrow> fst (fetch_aircraft net la lo rad s) = JArr []"
  "net (length (sent s)) (PointQuery la lo rad) = Response code Garbage \<Longrightarrow>
     fst (fetch_aircraft net la lo rad s) = JArr []"
  by (auto simp: fetch_aircraft_def aircraft_of_def response_json_def checked_def Let_def)

text \<open>
  Claim C6 says that the position fetch returns at most 20 records, a prefix of the list
  of the answer, and that it returns the empty list on every transport error, error status
  and malformed payload, without raising. The facts above give all of it but one case: a
  payload whose \<open>ac\<close> field is a string is malformed, and the fetch returns that string, not
  the empty list. The answer here has the three-character string \<open>abc\<close> in that field.
\<close>

theorem fetch_aircraft_string_payload:
  "fetch_aircraft string_ac_net 30.3 (- 97.7) 50 (init 0) =
     (JStr ''abc'', (init 0)\<lparr>sent := [PointQuery 30.3 (- 97.7) 50]\<rparr>)"
  by (simp add: string_ac_net_def world_defs value_defs fetch_defs Let_def)

section \<open>One pass of the loop\<close>

text \<open>
  Claim C1 says that no payload makes a pass of the loop raise. The fetches do catch
  every exception, and \<open>parse_altitude\<close> catches a bad altitude, but the other field
  accesses of \<open>draw\<close> and of the enrichment loop are unguarded. Here the position service
  reports one aircraft with the altitude \<open>ground\<close> and the ground speed \<open>fast\<close>, and the
  route service knows its airline: the altitude is read as 0, and \<^verbatim>\<open>int("fast")\<close> raises a
  \<open>ValueError\<close> that leaves \<open>run\<close>.
\<close>

theorem run_iteration_text_speed:
  "run_iteration text_speed_net 0 (init 0) = Inl ValueError"
  by (simp add: text_speed_net_def route_doc_def world_defs value_defs fetch_defs loop_defs
        draw_def ground_speed_def parse_altitude_def)

text \<open>The string that the position fetch lets through ends the loop as well: its first
  character has no \<open>get\<close>.\<close>

lemma run_iteration_string_payload:
  "run_iteration string_ac_net 0 (init 0) = Inl AttributeError"
  by (simp add: string_ac_net_def world_defs value_defs fetch_defs loop_defs)

section \<open>The distance\<close>

lemma sin_half_squared: "(sin (x / 2))\<^sup>2 = (1 - cos x) / (2::real)"
proof -
  have "cos x = cos (2 * (x / 2))" by simp
  also have "\<dots> = 1 - 2 * (sin (x / 2))\<^sup>2" by (rule cos_double_sin)
  finally show ?thesis by simp
qed

lemma convex_bound:
  fixes A B c :: real
  assumes c: "- 1 \<le> c" "c \<le> 1" and p: "\<bar>A + B\<bar> \<le> 1" and m: "\<bar>A - B\<bar> \<le> 1"
  shows "\<bar>A + B * c\<bar> \<le> 1"
proof -
  define p where "p = (1 + c) / 2"
  define q where "q = (1 - c) / 2"
  have pq: "0 \<le> p" "0 \<le> q" "p + q = 1" using c by (simp_all add: p_def q_def field_simps)
  have eq: "A + B * c = p * (A + B) + q * (A - B)"
    by (simp add: p_def q_def field_simps)
  from p m have b: "A + B \<le> 1" "A - B \<le> 1" "- 1 \<le> A + B" "- 1 \<le> A - B"
    by simp_all
  have "p * (A + B) \<le> p * 1" "q * (A - B) \<le> q * 1"
    using pq b by (simp_all only: mult_left_mono)
  then have up: "A + B * c \<le> 1" using pq eq by simp
  have "p * (- 1) \<le> p * (A + B)" "q * (- 1) \<le> q * (A - B)"
    using pq b by (simp_all only: mult_left_mono)
  then have lo: "- 1 \<le> A + B * c" using pq eq by simp
  from up lo show ?thesis by simp
qed

lemma haversine_a_alt:
  "haversine_a lat1 lon1 lat2 lon2 =
     (1 - (sin (radians lat1) * sin (radians lat2)
           + cos (radians lat1) * cos (radians lat2) * cos (radians (lon2 - lon1)))) / 2"
proof -
  have d: "radians (lat2 - lat1) = radians lat2 - radians lat1"
    by (simp add: radians_def field_simps)
  show ?thesis
    unfolding haversine_a_def Let_def sin_half_squared d cos_diff
    by (simp add: field_simps)
qed

text \<open>The argument of both square roots lies in the unit interval, so with exact
  arithmetic \<^verbatim>\<open>math.sqrt\<close> never raises in \<open>haversine\<close>.\<close>

lemma haversine_a_range:
  "0 \<le> haversine_a lat1 lon1 lat2 lon2 \<and> haversine_a lat1 lon1 lat2 lon2 \<le> 1"
proof -
  let ?A = "sin (radians lat1) * sin (radians lat2)"
  let ?B = "cos (radians lat1) * cos (radians lat2)"
  let ?c = "cos (radians (lon2 - lon1))"
  have p: "\<bar>?A + ?B\<bar> \<le> 1"
  proof -
    have "?A + ?B = cos (radians lat1 - radians lat2)" by (simp add: cos_diff)
    then show ?thesis by (simp only: abs_cos_le_one)
  qed
  have m: "\<bar>?A - ?B\<bar> \<le> 1"
  proof -
    have "?A - ?B = - cos (radians lat1 + radians lat2)" by (simp add: cos_add)
    then show ?thesis by (simp only: abs_minus_cancel abs_cos_le_one)
  qed
  have "\<bar>?A + ?B * ?c\<bar> \<le> 1"
    by (rule convex_bound[OF _ _ p m]) simp_all
  then show ?thesis unfolding haversine_a_alt by (simp add: abs_le_iff)
qed

lemma haversine_returns:
  "haversine lat1 lon1 lat2 lon2 = Inr (great_circle_km lat1 lon1 lat2 lon2)"
  using haversine_a_range[of lat1 lon1 lat2 lon2]
  by (simp add: haversine_def py_sqrt_def Let_def great_circle_km_def)

lemma atan2_pos: "0 < y \<Longrightarrow> 0 \<le> x \<Longrightarrow> 0 < atan2 y x"
  by (auto simp: atan2_def arctan_less_zero_iff zero_less_arctan_iff)

lemma great_circle_pos:
  "0 < haversine_a lat1 lon1 lat2 lon2 \<Longrightarrow> 0 < great_circle_km lat1 lon1 lat2 lon2"
  using haversine_a_range[of lat1 lon1 lat2 lon2]
  by (simp add: great_circle_km_def atan2_pos)

lemma great_circle_same_point: "great_circle_km la lo la lo = 0"
  by (simp add: great_circle_km_def haversine_a_def radians_def atan2_def)

lemma great_circle_symmetric: "great_circle_km la lo la' lo' = great_circle_km la' lo' la lo"
proof -
  have "radians (lo' - lo) = - radians (lo - lo')"
    unfolding radians_def by (simp add: field_simps)
  then have "cos (radians (lo' - lo)) = cos (radians (lo - lo'))" by (simp only: cos_minus)
  then have "haversine_a la lo la' lo' = haversine_a la' lo' la lo"
    by (simp add: haversine_a_alt mult.commute)
  then show ?thesis by (simp add: great_circle_km_def)
qed

text \<open>When both coordinates are numbers other than zero, the distance is the great-circle
  distance from the home coordinates; when one of them is missing, it is 0.\<close>

lemma distance_km_numbers:
  "py_float la = Inr x \<Longrightarrow> py_float lo = Inr y \<Longrightarrow> x \<noteq> 0 \<Longrightarrow> y \<noteq> 0 \<Longrightarrow>
   distance_km home la lo = Inr (great_circle_km (fst home) (snd home) x y)"
  by (cases la; cases lo)
     (auto simp: distance_km_def py_and_def py_float_def haversine_returns split: if_splits)

lemma distance_km_missing:
  "la = JNull \<or> lo = JNull \<Longrightarrow> distance_km home la lo = Inr 0"
  by (auto simp: distance_km_def py_and_def)



lemma london_a: "0 < haversine_a 31 (- 97) 51.5 0"
proof -
  have s: "0 < sin (radians (51.5 - 31) / 2)"
    by (rule sin_gt_zero) (use pi_gt_zero in \<open>simp_all add: radians_def\<close>)
  have c1: "0 < cos (radians 31)"
    by (rule cos_gt_zero_pi) (use pi_gt_zero in \<open>simp_all add: radians_def\<close>)
  have c2: "0 < cos (radians 51.5)"
    by (rule cos_gt_zero_pi) (use pi_gt_zero in \<open>simp_all add: radians_def\<close>)
  have "0 \<le> cos (radians 31) * cos (radians 51.5) * (sin (radians (0 - (- 97)) / 2))\<^sup>2"
    using c1 c2 by simp
  moreover have "0 < (sin (radians (51.5 - 31) / 2))\<^sup>2" using s by simp
  ultimately show ?thesis
    unfolding haversine_a_def Let_def by linarith
qed

text \<open>
  Claim C2 says that the displayed distance is the haversine distance whenever both
  coordinates of the aircraft are present, and 0 when one is missing, converted to miles by
  the factor 0.621371. The facts above give the formula for coordinates that are numbers
  other than zero, the 0 for a missing coordinate, and the factor. But the test
  \<^verbatim>\<open>lat and lon\<close> also takes a coordinate that is zero for a missing one. Here an aircraft
  over London is at latitude 51.5 and longitude 0: both are present, the haversine distance
  from the home coordinates is positive, and \<open>draw\<close> shows the distance 0.
\<close>

theorem distance_on_prime_meridian:
  "dict_get london_ac ''lat'' JNull = Inr (JFloat 51.5)
   \<and> dict_get london_ac ''lon'' JNull = Inr (JInt 0)
   \<and> distance_km HOME_COORDS (JFloat 51.5) (JInt 0) = Inr 0
   \<and> (\<exists>d. haversine (fst HOME_COORDS) (snd HOME_COORDS) 51.5 0 = Inr d \<and> 0 < d)
   \<and> (\<exists>s'. draw sample_net [london_ac] ''London'' HOME_COORDS (init 0) = Inr s'
          \<and> map f_dist_km (shown s') = [0] \<and> map f_dist_mi (shown s') = [0]
          \<and> map f_dist_fill (shown s') = [(255, 0, 0)])"
proof -
  have 0: "dict_get london_ac ''lat'' JNull = Inr (JFloat 51.5)"
    "dict_get london_ac ''lon'' JNull = Inr (JInt 0)"
    by (simp_all add: london_ac_def dict_get_def)
  have 1: "distance_km HOME_COORDS (JFloat 51.5) (JInt 0) = Inr 0"
    by (simp add: distance_km_def py_and_def)
  have 2: "\<exists>d. haversine (fst HOME_COORDS) (snd HOME_COORDS) 51.5 0 = Inr d \<and> 0 < d"
    using great_circle_pos[OF london_a] by (simp add: haversine_returns HOME_COORDS_def)
  have 3: "\<exists>s'. draw sample_net [london_ac] ''London'' HOME_COORDS (init 0) = Inr s'
          \<and> map f_dist_km (shown s') = [0] \<and> map f_dist_mi (shown s') = [0]
          \<and> map f_dist_fill (shown s') = [(255, 0, 0)]"
    by (simp add: london_ac_def draw_def ground_speed_def parse_altitude_def distance_km_def
          dist_color_def world_defs value_defs fetch_defs)
  from 0 1 2 3 show ?thesis by simp
qed

section \<open>The ground speed\<close>






end
